theory Spec2Isabelle
  imports Main
begin

section \<open>Data model (src/types.ts)\<close>

text \<open>
  The interfaces of \<^verbatim>\<open>types.ts\<close> become records, the string-literal unions become
  datatypes and an optional field becomes an \<open>option\<close>. Field names are those of the
  source; where two interfaces share a field name, or a name is taken by a HOL constant,
  the field carries the interface as a prefix (\<open>file_extension\<close>, \<open>image_format\<close>,
  \<open>entry_id\<close>, \<open>user_name\<close>, \<open>file_name\<close>, \<open>file_type\<close>). Strings are \<open>string\<close>; a
  timestamp (a JavaScript number holding milliseconds since the epoch) is an \<open>int\<close>.
\<close>

record ConversionSuggestion =
  format :: string
  extension :: string

record FileAnalysisResult =
  fileType :: string
  file_extension :: string
  file_description :: string
  commonUses :: "string list"
  potentialRisks :: "string list"
  file_conversionSuggestions :: "ConversionSuggestion list"

record ImageAnalysisResult =
  image_format :: string
  image_description :: string
  tags :: "string list"
  editSuggestions :: "string list"
  image_conversionSuggestions :: "ConversionSuggestion list"

text \<open>The tagged union \<^verbatim>\<open>AnalysisResult\<close>; the constructor is the \<^verbatim>\<open>type\<close> tag.\<close>

datatype AnalysisResult = File FileAnalysisResult | Image ImageAnalysisResult

record ConversionResult =
  content :: string
  isBinary :: bool
  mimeType :: string

datatype ScanStatus = clean | threat_found

record ScanResult =
  status :: ScanStatus
  threatName :: "string option"
  scannedAt :: string
  engineVersion :: string

datatype Subscription = FreeTrial | Pro | Expired

record Settings =
  darkMode :: bool
  notifications :: bool

record User =
  user_name :: string
  subscription :: Subscription
  trialEndsAt :: "int option"
  settings :: Settings

record ConversionHistoryEntry =
  entry_id :: string
  originalName :: string
  fromFormat :: string
  toFormat :: string
  timestamp :: string

text \<open>
  The browser's \<^verbatim>\<open>File\<close>: a name, a MIME type, a modification time and the bytes.
\<close>

record FileHandle =
  file_name :: string
  file_type :: string
  lastModified :: int
  file_bytes :: "nat list"

text \<open>
  A \<^verbatim>\<open>Blob\<close> is built either from a byte array (\<^verbatim>\<open>new Blob([byteArray], ...)\<close>) or from
  a string (\<^verbatim>\<open>new Blob([content], ...)\<close>), and carries a MIME type.
\<close>

datatype BlobPart = ByteArray "nat list" | TextPart string

record Blob =
  blob_part :: BlobPart
  blob_type :: string

text \<open>
  A thrown value: an \<^verbatim>\<open>Error\<close> with its message, or anything else. The \<^verbatim>\<open>catch\<close> of
  \<^verbatim>\<open>handleConversionSelect\<close> tells the two apart with \<^verbatim>\<open>instanceof Error\<close>.
\<close>

datatype Thrown = Error string | NonError


section \<open>Session state, local storage and the browser\<close>

text \<open>The \<^verbatim>\<open>useState\<close> cells of \<^verbatim>\<open>App\<close> (App.tsx, lines 27-39).\<close>

record AppState =
  selectedFile :: "FileHandle option"
  analysisResult :: "AnalysisResult option"
  scanResult :: "ScanResult option"
  isLoading :: bool
  loadingMessage :: string
  error :: "string option"
  scripts :: "(string \<times> string) list option"
  currentUser :: "User option"
  isProfileOpen :: bool
  conversionHistory :: "ConversionHistoryEntry list"
  isSubscriptionModalOpen :: bool

text \<open>
  The two keys of \<^verbatim>\<open>localStorage\<close> the program uses, \<^verbatim>\<open>filecraft_user\<close> and
  \<^verbatim>\<open>filecraft_history\<close>. \<open>None\<close> is a key that is not stored. The stored text is the
  \<^verbatim>\<open>JSON.stringify\<close> of the value and is read back with \<^verbatim>\<open>JSON.parse\<close>; the model
  keeps the value itself (a \<^verbatim>\<open>trialEndsAt\<close> that is \<^verbatim>\<open>undefined\<close> is dropped by
  \<^verbatim>\<open>JSON.stringify\<close> and read back as missing, which is \<open>None\<close> both times).
\<close>

record LocalStorage =
  filecraft_user :: "User option"
  filecraft_history :: "ConversionHistoryEntry list option"

text \<open>
  The whole browser tab: the component state, the storage, and the files the program has
  handed to the user through \<^verbatim>\<open>a.click()\<close> (file name and blob, oldest first).
\<close>

record World =
  app :: AppState
  storage :: LocalStorage
  downloads :: "(string \<times> Blob) list"

definition initialState :: AppState where
  "initialState = \<lparr> selectedFile = None, analysisResult = None, scanResult = None,
     isLoading = False, loadingMessage = [], error = None, scripts = None,
     currentUser = None, isProfileOpen = False, conversionHistory = [],
     isSubscriptionModalOpen = False \<rparr>"


section \<open>Effects (App.tsx, lines 42-69 and 216-222)\<close>

text \<open>
  Lines 48-50: the trial check made when the stored user is loaded. The JavaScript
  condition is \<^verbatim>\<open>user.subscription === 'Free Trial' && user.trialEndsAt && Date.now() > user.trialEndsAt\<close>;
  its middle conjunct is a truthiness test on an optional number, false for a missing
  field and for the number 0.
\<close>

definition truthy :: "int option \<Rightarrow> bool" where
  "truthy t = (case t of None \<Rightarrow> False | Some n \<Rightarrow> n \<noteq> 0)"

definition resolveSubscriptionState :: "User \<Rightarrow> int \<Rightarrow> User" where
  "resolveSubscriptionState user now =
     (if subscription user = FreeTrial \<and> truthy (trialEndsAt user)
         \<and> (case trialEndsAt user of None \<Rightarrow> False | Some t \<Rightarrow> now > t)
      then user\<lparr>subscription := Expired\<rparr> else user)"

text \<open>Lines 59-65: the effect on \<^verbatim>\<open>[currentUser]\<close>.\<close>

definition persistUser :: "AppState \<Rightarrow> LocalStorage \<Rightarrow> LocalStorage" where
  "persistUser s st =
     (case currentUser s of
        Some u \<Rightarrow> st\<lparr>filecraft_user := Some u\<rparr>
      | None \<Rightarrow> st\<lparr>filecraft_user := None\<rparr>)"

text \<open>Lines 67-69: the effect on \<^verbatim>\<open>[conversionHistory]\<close>.\<close>

definition persistHistory :: "AppState \<Rightarrow> LocalStorage \<Rightarrow> LocalStorage" where
  "persistHistory s st = st\<lparr>filecraft_history := Some (conversionHistory s)\<rparr>"

text \<open>Line 216 and lines 218-222: the effect on \<^verbatim>\<open>[isSubscriptionExpired]\<close>.\<close>

definition isSubscriptionExpired :: "AppState \<Rightarrow> bool" where
  "isSubscriptionExpired s =
     (case currentUser s of None \<Rightarrow> False | Some u \<Rightarrow> subscription u = Expired)"

definition openModalIfExpired :: "AppState \<Rightarrow> AppState" where
  "openModalIfExpired s =
     (if isSubscriptionExpired s then s\<lparr>isSubscriptionModalOpen := True\<rparr> else s)"

text \<open>
  A render after a state change: React runs an effect when one of its dependencies has
  changed since the previous render. \<open>commit w s'\<close> replaces the component state of
  \<open>w\<close> by \<open>s'\<close> and runs the three effects above, each under its dependency test. (React
  compares dependencies by identity; the handlers below change \<^verbatim>\<open>currentUser\<close> and
  \<^verbatim>\<open>conversionHistory\<close> only to values that differ from the old ones, or rewrite the
  storage with the value it already holds.)
\<close>

definition commit :: "World \<Rightarrow> AppState \<Rightarrow> World" where
  "commit w s' =
     (let s = app w;
          st1 = (if currentUser s' \<noteq> currentUser s then persistUser s' (storage w)
                 else storage w);
          st2 = (if conversionHistory s' \<noteq> conversionHistory s then persistHistory s' st1
                 else st1);
          s'' = (if isSubscriptionExpired s' \<noteq> isSubscriptionExpired s
                 then openModalIfExpired s' else s')
      in w\<lparr>app := s'', storage := st2\<rparr>)"

text \<open>
  The first render (lines 42-69): the state is \<open>initialState\<close>; the load effect reads
  both keys and schedules the state updates; the two persisting effects run on the
  initial state (removing \<^verbatim>\<open>filecraft_user\<close>, storing an empty history); the render
  that follows the scheduled updates runs them again on the loaded values.
\<close>

definition loadEffect :: "int \<Rightarrow> LocalStorage \<Rightarrow> AppState \<Rightarrow> AppState" where
  "loadEffect now st s =
     (let s1 = (case filecraft_user st of
                  Some user \<Rightarrow> s\<lparr>currentUser := Some (resolveSubscriptionState user now)\<rparr>
                | None \<Rightarrow> s);
          s2 = (case filecraft_history st of
                  Some h \<Rightarrow> s1\<lparr>conversionHistory := h\<rparr>
                | None \<Rightarrow> s1)
      in s2)"

definition mount :: "int \<Rightarrow> LocalStorage \<Rightarrow> World" where
  "mount now st =
     (let loaded = loadEffect now st initialState;
          w0 = \<lparr> app = initialState,
                 storage = persistHistory initialState (persistUser initialState st),
                 downloads = [] \<rparr>
      in commit w0 loaded)"


section \<open>Handlers without asynchronous steps (App.tsx, lines 101-110 and 163-212)\<close>

definition handleRenameFile :: "string \<Rightarrow> AppState \<Rightarrow> AppState" where
  "handleRenameFile newName s =
     (case selectedFile s of
        None \<Rightarrow> s
      | Some f \<Rightarrow> s\<lparr>selectedFile := Some (f\<lparr>file_name := newName\<rparr>)\<rparr>)"

definition handleReset :: "AppState \<Rightarrow> AppState" where
  "handleReset s =
     s\<lparr>selectedFile := None, analysisResult := None, error := None, scripts := None,
       scanResult := None, isLoading := False\<rparr>"

text \<open>
  \<^verbatim>\<open>handleLogin\<close> reads the storage. \<open>trialEnds\<close> is the value of
  \<^verbatim>\<open>trialEnds.getTime()\<close> at line 183: the clock of the browser, three calendar days
  ahead.
\<close>

definition handleLogin :: "int \<Rightarrow> LocalStorage \<Rightarrow> AppState \<Rightarrow> AppState" where
  "handleLogin trialEnds st s =
     (case filecraft_user st of
        Some storedUser \<Rightarrow> s\<lparr>currentUser := Some storedUser\<rparr>
      | None \<Rightarrow>
          s\<lparr>currentUser := Some \<lparr> user_name = ''Alex Rider'', subscription = FreeTrial,
               trialEndsAt = Some trialEnds,
               settings = \<lparr> darkMode = True, notifications = False \<rparr> \<rparr>\<rparr>)"

definition handleLogout :: "AppState \<Rightarrow> AppState" where
  "handleLogout s = s\<lparr>currentUser := None, isProfileOpen := False\<rparr>"

definition handleSettingsChange :: "Settings \<Rightarrow> AppState \<Rightarrow> AppState" where
  "handleSettingsChange newSettings s =
     (case currentUser s of
        None \<Rightarrow> s
      | Some prev \<Rightarrow> s\<lparr>currentUser := Some (prev\<lparr>settings := newSettings\<rparr>)\<rparr>)"

text \<open>
  \<^verbatim>\<open>handleActivateSubscription\<close> returns a boolean besides updating the state: the model
  returns the pair.
\<close>

definition handleActivateSubscription :: "string \<Rightarrow> AppState \<Rightarrow> AppState \<times> bool" where
  "handleActivateSubscription code s =
     (if code = ''PRO-YEARLY-2024'' \<and> currentUser s \<noteq> None
      then (case currentUser s of
              Some u \<Rightarrow>
                (s\<lparr>currentUser := Some (u\<lparr>subscription := Pro, trialEndsAt := None\<rparr>),
                   isSubscriptionModalOpen := False\<rparr>, True)
            | None \<Rightarrow> (s, False))
      else (s, False))"

text \<open>The same handlers as steps of the browser tab: the handler, then the render.\<close>

definition reset :: "World \<Rightarrow> World" where
  "reset w = commit w (handleReset (app w))"

definition login :: "int \<Rightarrow> World \<Rightarrow> World" where
  "login trialEnds w = commit w (handleLogin trialEnds (storage w) (app w))"

definition logout :: "World \<Rightarrow> World" where
  "logout w = commit w (handleLogout (app w))"

definition activateSubscription :: "string \<Rightarrow> World \<Rightarrow> World \<times> bool" where
  "activateSubscription code w =
     (let (s', ok) = handleActivateSubscription code (app w) in (commit w s', ok))"


section \<open>String operations of the source\<close>

text \<open>
  \<^verbatim>\<open>String.prototype.includes\<close> (here \<open>includes_char\<close>), \<^verbatim>\<open>lastIndexOf\<close> (the index of the last occurrence,
  or -1), \<^verbatim>\<open>substring\<close> (both indices clamped to the string, swapped when out of
  order) and \<^verbatim>\<open>toLowerCase\<close>, the first two for a one-character argument, which is how
  the source calls them. A \<open>char\<close> is one code unit below 256; on these
  \<^verbatim>\<open>toLowerCase\<close> moves the letters A-Z (65-90) and the capital letters of the
  Latin-1 block (192-222, without the multiplication sign 215) up by 32 and leaves every
  other code unit as it is.
\<close>

definition includes_char :: "string \<Rightarrow> char \<Rightarrow> bool" where
  "includes_char s c = (c \<in> set s)"

fun lastIndexOf_from :: "string \<Rightarrow> char \<Rightarrow> int \<Rightarrow> int \<Rightarrow> int" where
  "lastIndexOf_from [] c i found = found"
| "lastIndexOf_from (x # xs) c i found =
     lastIndexOf_from xs c (i + 1) (if x = c then i else found)"

definition lastIndexOf :: "string \<Rightarrow> char \<Rightarrow> int" where
  "lastIndexOf s c = lastIndexOf_from s c 0 (- 1)"

definition substring :: "string \<Rightarrow> int \<Rightarrow> int \<Rightarrow> string" where
  "substring s a b =
     (let n = int (length s);
          a' = max 0 (min a n);
          b' = max 0 (min b n);
          lo = min a' b';
          hi = max a' b'
      in take (nat (hi - lo)) (drop (nat lo) s))"

definition charCodeAt :: "char \<Rightarrow> nat" where
  "charCodeAt c = of_char c"

definition toLowerCase_char :: "char \<Rightarrow> char" where
  "toLowerCase_char c =
     (if (65 \<le> charCodeAt c \<and> charCodeAt c \<le> 90)
         \<or> (192 \<le> charCodeAt c \<and> charCodeAt c \<le> 222 \<and> charCodeAt c \<noteq> 215)
      then char_of (charCodeAt c + 32) else c)"

definition toLowerCase :: "string \<Rightarrow> string" where
  "toLowerCase s = map toLowerCase_char s"


section \<open>The services and the browser\<close>

text \<open>
  The four functions of \<^verbatim>\<open>services/geminiService\<close> and the browser's \<^verbatim>\<open>atob\<close>,
  \<^verbatim>\<open>crypto.randomUUID()\<close> and \<^verbatim>\<open>new Date().toISOString()\<close> are outside the program:
  they are parameters. A promise that rejects, or a call that throws, is \<open>Inl\<close> of the
  thrown value.
\<close>

record Env =
  simulateVirusScan :: "FileHandle \<Rightarrow> Thrown + ScanResult"
  analyzeFile :: "FileHandle \<Rightarrow> ScanStatus \<Rightarrow> Thrown + AnalysisResult"
  generateScripts :: "string \<Rightarrow> string \<Rightarrow> Thrown + (string \<times> string) list"
  convertFileContent :: "FileHandle \<Rightarrow> string \<Rightarrow> Thrown + ConversionResult"
  atob :: "string \<Rightarrow> Thrown + string"
  randomUUID :: string
  nowISOString :: string

text \<open>Lines 16-24. The loop over the decoded characters is a \<open>map\<close>.\<close>

definition base64ToBlob :: "Env \<Rightarrow> string \<Rightarrow> string \<Rightarrow> Thrown + Blob" where
  "base64ToBlob env base64 mime =
     (case atob env base64 of
        Inl err \<Rightarrow> Inl err
      | Inr byteCharacters \<Rightarrow>
          Inr \<lparr> blob_part = ByteArray (map (\<lambda>c. charCodeAt c mod 256) byteCharacters),
                blob_type = mime \<rparr>)"


section \<open>\<^verbatim>\<open>handleFileSelect\<close> (App.tsx, lines 71-99)\<close>

text \<open>
  The handler is asynchronous: it runs to its first \<^verbatim>\<open>await\<close>, and each later part runs
  when the awaited promise settles, on whatever the state is by then. Each part is a
  function of the state; \<open>file\<close> is the handler's own argument, which the later parts
  still hold.
\<close>

definition fileSelect_begin :: "FileHandle \<Rightarrow> AppState \<Rightarrow> AppState" where
  "fileSelect_begin file s =
     s\<lparr>selectedFile := Some file, analysisResult := None, scanResult := None,
       error := None, scripts := None, isLoading := True,
       loadingMessage := ''Scanning for threats...''\<rparr>"

definition fileSelect_finally :: "AppState \<Rightarrow> AppState" where
  "fileSelect_finally s = s\<lparr>isLoading := False, loadingMessage := []\<rparr>"

definition fileSelect_catch :: "AppState \<Rightarrow> AppState" where
  "fileSelect_catch s =
     s\<lparr>error := Some ''Failed to process file. The AI model may be unavailable or the scan failed. Please try again later.''\<rparr>"

definition fileSelect_scanSettled ::
  "FileHandle \<Rightarrow> Thrown + ScanResult \<Rightarrow> AppState \<Rightarrow> AppState" where
  "fileSelect_scanSettled file r s =
     (case r of
        Inr scan \<Rightarrow>
          s\<lparr>scanResult := Some scan,
            loadingMessage := ''Analyzing '' @ file_name file @ ''...''\<rparr>
      | Inl err \<Rightarrow> fileSelect_finally (fileSelect_catch s))"

definition fileSelect_analyzeSettled ::
  "Thrown + AnalysisResult \<Rightarrow> AppState \<Rightarrow> AppState" where
  "fileSelect_analyzeSettled r s =
     (case r of
        Inr result \<Rightarrow> fileSelect_finally (s\<lparr>analysisResult := Some result\<rparr>)
      | Inl err \<Rightarrow> fileSelect_finally (fileSelect_catch s))"

text \<open>
  What the user and the services do to a tab, one event at a time. A settled promise
  names the selection it belongs to by that selection's file.
\<close>

datatype Event =
    FileSelected FileHandle
  | ScanSettled FileHandle "Thrown + ScanResult"
  | AnalyzeSettled FileHandle "Thrown + AnalysisResult"
  | ResetClicked

fun step :: "Event \<Rightarrow> World \<Rightarrow> World" where
  "step (FileSelected file) w = commit w (fileSelect_begin file (app w))"
| "step (ScanSettled file r) w = commit w (fileSelect_scanSettled file r (app w))"
| "step (AnalyzeSettled file r) w = commit w (fileSelect_analyzeSettled r (app w))"
| "step ResetClicked w = reset w"

fun run :: "Event list \<Rightarrow> World \<Rightarrow> World" where
  "run [] w = w"
| "run (e # es) w = run es (step e w)"

text \<open>
  One call of \<^verbatim>\<open>handleFileSelect\<close> with nothing else happening in between: the scan is
  awaited, and the analysis is requested only when the scan has resolved. The argument is
  optional because of the guard of line 72.
\<close>

definition handleFileSelect :: "Env \<Rightarrow> FileHandle option \<Rightarrow> World \<Rightarrow> World" where
  "handleFileSelect env fo w =
     (case fo of
        None \<Rightarrow> w
      | Some file \<Rightarrow>
          (let w1 = step (FileSelected file) w in
           case simulateVirusScan env file of
             Inl err \<Rightarrow> step (ScanSettled file (Inl err)) w1
           | Inr scan \<Rightarrow>
               step (AnalyzeSettled file (analyzeFile env file (status scan)))
                 (step (ScanSettled file (Inr scan)) w1)))"


section \<open>\<^verbatim>\<open>handleConversionSelect\<close> (App.tsx, lines 112-161)\<close>

definition sourceFormat :: "AnalysisResult \<Rightarrow> string" where
  "sourceFormat ar = (case ar of File r \<Rightarrow> fileType r | Image r \<Rightarrow> image_format r)"

definition conversion_begin :: "AppState \<Rightarrow> AppState" where
  "conversion_begin s = s\<lparr>scripts := None, error := None, isLoading := True\<rparr>"

definition errorMessage :: "Thrown \<Rightarrow> string" where
  "errorMessage err = (case err of Error m \<Rightarrow> m | NonError \<Rightarrow> ''An unknown error occurred.'')"

definition conversion_catch :: "Thrown \<Rightarrow> AppState \<Rightarrow> AppState" where
  "conversion_catch err s =
     s\<lparr>error := Some (''Failed to perform conversion. '' @ errorMessage err)\<rparr>"

definition conversion_finally :: "AppState \<Rightarrow> AppState" where
  "conversion_finally s = s\<lparr>isLoading := False\<rparr>"

text \<open>Lines 126-128.\<close>

definition makeBlob :: "Env \<Rightarrow> ConversionResult \<Rightarrow> Thrown + Blob" where
  "makeBlob env cr =
     (if isBinary cr then base64ToBlob env (content cr) (mimeType cr)
      else Inr \<lparr> blob_part = TextPart (content cr), blob_type = mimeType cr \<rparr>)"

text \<open>Lines 134-136.\<close>

definition baseName :: "string \<Rightarrow> string" where
  "baseName oldName =
     (if includes_char oldName CHR ''.''
      then substring oldName 0 (lastIndexOf oldName CHR ''.'')
      else oldName)"

definition newFileName :: "string \<Rightarrow> ConversionSuggestion \<Rightarrow> string" where
  "newFileName oldName targetFormat = baseName oldName @ extension targetFormat"

text \<open>Lines 145-151.\<close>

definition newHistoryEntry ::
  "Env \<Rightarrow> AnalysisResult \<Rightarrow> FileHandle \<Rightarrow> ConversionSuggestion \<Rightarrow> ConversionHistoryEntry" where
  "newHistoryEntry env ar file targetFormat =
     \<lparr> entry_id = randomUUID env,
       originalName = file_name file,
       fromFormat = (case ar of
                       File r \<Rightarrow> file_extension r
                     | Image r \<Rightarrow> ''.'' @ toLowerCase (image_format r)),
       toFormat = extension targetFormat,
       timestamp = nowISOString env \<rparr>"

text \<open>
  One call of \<^verbatim>\<open>handleConversionSelect\<close> with nothing else happening in between.
  \<^verbatim>\<open>analysisResult\<close> and \<^verbatim>\<open>selectedFile\<close> are read once, when the handler is called
  (they are dependencies of the \<^verbatim>\<open>useCallback\<close>); the history is read when the entry is
  added (\<^verbatim>\<open>prev => [newHistoryEntry, ...prev]\<close>). The calls on the document and on
  \<^verbatim>\<open>URL\<close> of lines 130-142 are taken not to throw; their effect is the download.
\<close>

definition conversion_fail :: "Thrown \<Rightarrow> World \<Rightarrow> World" where
  "conversion_fail err w = commit w (conversion_finally (conversion_catch err (app w)))"

definition conversion_download ::
  "Env \<Rightarrow> AnalysisResult \<Rightarrow> FileHandle \<Rightarrow> ConversionSuggestion \<Rightarrow> Blob \<Rightarrow> World \<Rightarrow> World" where
  "conversion_download env ar file targetFormat blob w =
     (let w' = w\<lparr>downloads := downloads w @ [(newFileName (file_name file) targetFormat, blob)]\<rparr>
      in commit w'
           (conversion_finally
              ((app w')\<lparr>conversionHistory :=
                 newHistoryEntry env ar file targetFormat # conversionHistory (app w')\<rparr>)))"

definition handleConversionSelect :: "Env \<Rightarrow> ConversionSuggestion \<Rightarrow> World \<Rightarrow> World" where
  "handleConversionSelect env targetFormat w =
     (case (analysisResult (app w), selectedFile (app w)) of
        (Some ar, Some file) \<Rightarrow>
          (let w1 = commit w (conversion_begin (app w)) in
           case generateScripts env (sourceFormat ar) (format targetFormat) of
             Inl err \<Rightarrow> conversion_fail err w1
           | Inr generatedScripts \<Rightarrow>
               (let w2 = commit w1 ((app w1)\<lparr>scripts := Some generatedScripts\<rparr>) in
                case convertFileContent env file (format targetFormat) of
                  Inl err \<Rightarrow> conversion_fail err w2
                | Inr conversionResult \<Rightarrow>
                    (case makeBlob env conversionResult of
                       Inl err \<Rightarrow> conversion_fail err w2
                     | Inr blob \<Rightarrow> conversion_download env ar file targetFormat blob w2)))
      | _ \<Rightarrow> w)"


section \<open>Traces and example inputs\<close>

text \<open>
  An event after which the stored analysis result is still the one stored before it: a
  settled scan, or an analysis that was rejected. A new selection and a reset clear the
  result, a resolved analysis replaces it.
\<close>

fun keeps_analysis :: "Event \<Rightarrow> bool" where
  "keeps_analysis (FileSelected file) = False"
| "keeps_analysis (ScanSettled file r) = True"
| "keeps_analysis (AnalyzeSettled file r) = (case r of Inl err \<Rightarrow> True | Inr result \<Rightarrow> False)"
| "keeps_analysis ResetClicked = False"

text \<open>
  The same for the stored scan result: a settled analysis, or a scan that was rejected.
\<close>

fun keeps_scan :: "Event \<Rightarrow> bool" where
  "keeps_scan (FileSelected file) = False"
| "keeps_scan (ScanSettled file r) = (case r of Inl err \<Rightarrow> True | Inr scan \<Rightarrow> False)"
| "keeps_scan (AnalyzeSettled file r) = True"
| "keeps_scan ResetClicked = False"

text \<open>Concrete files, service answers and tabs, used where a statement is evaluated.\<close>

definition reportDocx :: FileHandle where
  "reportDocx = \<lparr> file_name = ''report.docx'', file_type = ''application/msword'',
     lastModified = 1762000000000, file_bytes = [80, 75, 3, 4] \<rparr>"

definition photoPng :: FileHandle where
  "photoPng = \<lparr> file_name = ''photo.png'', file_type = ''image/png'',
     lastModified = 1762000000001, file_bytes = [137, 80, 78, 71] \<rparr>"

definition pdfSuggestion :: ConversionSuggestion where
  "pdfSuggestion = \<lparr> format = ''PDF'', extension = ''.pdf'' \<rparr>"

definition docxAnalysis :: AnalysisResult where
  "docxAnalysis = File \<lparr> fileType = ''Word Document'', file_extension = ''.docx'',
     file_description = ''A text document'', commonUses = [''letters''],
     potentialRisks = [''macros''], file_conversionSuggestions = [pdfSuggestion] \<rparr>"

definition pngAnalysis :: AnalysisResult where
  "pngAnalysis = Image \<lparr> image_format = ''PNG'', image_description = ''A photo'',
     tags = [''beach''], editSuggestions = [''crop''],
     image_conversionSuggestions = [pdfSuggestion] \<rparr>"

definition cleanScan :: ScanResult where
  "cleanScan = \<lparr> status = clean, threatName = None,
     scannedAt = ''2026-11-02T08:00:00.000Z'', engineVersion = ''1.0'' \<rparr>"

definition threatScan :: ScanResult where
  "threatScan = \<lparr> status = threat_found, threatName = Some ''EICAR-Test-File'',
     scannedAt = ''2026-11-02T08:00:01.000Z'', engineVersion = ''1.0'' \<rparr>"

definition pdfResult :: ConversionResult where
  "pdfResult = \<lparr> content = ''JVBERi0='', isBinary = True, mimeType = ''application/pdf'' \<rparr>"

definition pdfBlob :: Blob where
  "pdfBlob = \<lparr> blob_part = ByteArray [37, 80, 68, 70, 45], blob_type = ''application/pdf'' \<rparr>"

definition workingEnv :: Env where
  "workingEnv = \<lparr>
     simulateVirusScan = (\<lambda>f. Inr cleanScan),
     analyzeFile = (\<lambda>f st. if file_name f = ''photo.png'' then Inr pngAnalysis
                            else Inr docxAnalysis),
     generateScripts = (\<lambda>src tgt. Inr [(''python'', ''convert()'')]),
     convertFileContent = (\<lambda>f tgt. Inr pdfResult),
     atob = (\<lambda>b. if b = ''JVBERi0='' then Inr ''%PDF-''
                  else Inl (Error ''The string to be decoded is not correctly encoded.'')),
     randomUUID = ''3b241101-e2bb-4255-8caf-4136c566a962'',
     nowISOString = ''2026-11-02T08:00:05.000Z'' \<rparr>"

definition trialUser :: User where
  "trialUser = \<lparr> user_name = ''Alex Rider'', subscription = FreeTrial,
     trialEndsAt = Some 1762300800000,
     settings = \<lparr> darkMode = True, notifications = False \<rparr> \<rparr>"



text \<open>A first visit (nothing stored) followed by a login.\<close>

definition firstVisit :: World where
  "firstVisit = login 1762300800000
     (mount 1762041600000 \<lparr> filecraft_user = None, filecraft_history = None \<rparr>)"

text \<open>The same tab after a file was selected, scanned and analysed.\<close>

definition docxReady :: World where
  "docxReady = handleFileSelect workingEnv (Some reportDocx) firstVisit"

definition pngReady :: World where
  "pngReady = handleFileSelect workingEnv (Some photoPng) firstVisit"

text \<open>The tab after one conversion and an activation of the subscription.\<close>

definition proTab :: World where
  "proTab = fst (activateSubscription ''PRO-YEARLY-2024''
              (handleConversionSelect workingEnv pdfSuggestion docxReady))"


section \<open>Facts about the render and the string operations\<close>

lemmas handler_defs =
  commit_def persistUser_def persistHistory_def isSubscriptionExpired_def
  openModalIfExpired_def loadEffect_def mount_def initialState_def
  resolveSubscriptionState_def truthy_def
  handleReset_def handleLogin_def handleLogout_def handleActivateSubscription_def
  reset_def login_def logout_def activateSubscription_def
  fileSelect_begin_def fileSelect_finally_def fileSelect_catch_def
  fileSelect_scanSettled_def fileSelect_analyzeSettled_def handleFileSelect_def
  sourceFormat_def conversion_begin_def errorMessage_def conversion_catch_def
  conversion_finally_def makeBlob_def base64ToBlob_def newHistoryEntry_def
  conversion_fail_def conversion_download_def handleConversionSelect_def

lemmas example_defs =
  reportDocx_def photoPng_def pdfSuggestion_def docxAnalysis_def pngAnalysis_def
  cleanScan_def pdfResult_def pdfBlob_def workingEnv_def trialUser_def

lemma commit_same: "commit w (app w) = w"
  by (simp add: commit_def)

lemma app_commit:
  "app (commit w s') =
     (if isSubscriptionExpired s' \<noteq> isSubscriptionExpired (app w)
      then openModalIfExpired s' else s')"
  by (simp add: commit_def Let_def)

lemma downloads_commit: "downloads (commit w s') = downloads w"
  by (simp add: commit_def Let_def)

lemma storage_commit:
  "storage (commit w s') =
     (let st1 = (if currentUser s' \<noteq> currentUser (app w) then persistUser s' (storage w)
                 else storage w)
      in if conversionHistory s' \<noteq> conversionHistory (app w) then persistHistory s' st1
         else st1)"
  by (simp add: commit_def Let_def)

lemma openModalIfExpired_fields:
  "selectedFile (openModalIfExpired s) = selectedFile s"
  "analysisResult (openModalIfExpired s) = analysisResult s"
  "scanResult (openModalIfExpired s) = scanResult s"
  "isLoading (openModalIfExpired s) = isLoading s"
  "loadingMessage (openModalIfExpired s) = loadingMessage s"
  "error (openModalIfExpired s) = error s"
  "scripts (openModalIfExpired s) = scripts s"
  "currentUser (openModalIfExpired s) = currentUser s"
  "isProfileOpen (openModalIfExpired s) = isProfileOpen s"
  "conversionHistory (openModalIfExpired s) = conversionHistory s"
  by (simp_all add: openModalIfExpired_def)

text \<open>The render changes no cell of the state but the visibility of the subscription modal.\<close>

lemma commit_fields:
  "selectedFile (app (commit w s)) = selectedFile s"
  "analysisResult (app (commit w s)) = analysisResult s"
  "scanResult (app (commit w s)) = scanResult s"
  "isLoading (app (commit w s)) = isLoading s"
  "loadingMessage (app (commit w s)) = loadingMessage s"
  "error (app (commit w s)) = error s"
  "scripts (app (commit w s)) = scripts s"
  "currentUser (app (commit w s)) = currentUser s"
  "isProfileOpen (app (commit w s)) = isProfileOpen s"
  "conversionHistory (app (commit w s)) = conversionHistory s"
  by (simp_all add: app_commit openModalIfExpired_fields)

lemma run_append: "run (es1 @ es2) w = run es2 (run es1 w)"
  by (induction es1 arbitrary: w) simp_all

lemma step_keeps_analysis:
  "keeps_analysis e \<Longrightarrow> analysisResult (app (step e w)) = analysisResult (app w)"
  by (cases e)
     (simp_all add: commit_fields fileSelect_scanSettled_def fileSelect_analyzeSettled_def
        fileSelect_finally_def fileSelect_catch_def split: sum.splits)

lemma run_keeps_analysis:
  "list_all keeps_analysis es \<Longrightarrow> analysisResult (app (run es w)) = analysisResult (app w)"
  by (induction es arbitrary: w) (simp_all add: step_keeps_analysis)

lemma lastIndexOf_from_absent:
  "c \<notin> set xs \<Longrightarrow> lastIndexOf_from xs c i found = found"
  by (induction xs arbitrary: i) auto

lemma lastIndexOf_from_last:
  "c \<notin> set ys \<Longrightarrow> lastIndexOf_from (xs @ c # ys) c i found = i + int (length xs)"
  by (induction xs arbitrary: i found) (simp_all add: lastIndexOf_from_absent)

lemma baseName_dot:
  "CHR ''.'' \<notin> set rest \<Longrightarrow> baseName (p @ CHR ''.'' # rest) = p"
  by (simp add: baseName_def includes_char_def lastIndexOf_def lastIndexOf_from_last
        substring_def Let_def)

lemma baseName_no_dot: "CHR ''.'' \<notin> set s \<Longrightarrow> baseName s = s"
  by (simp add: baseName_def includes_char_def)

lemma step_keeps_scan:
  "keeps_scan e \<Longrightarrow> scanResult (app (step e w)) = scanResult (app w)"
  by (cases e)
     (simp_all add: commit_fields fileSelect_scanSettled_def fileSelect_analyzeSettled_def
        fileSelect_finally_def fileSelect_catch_def split: sum.splits)

lemma run_keeps_scan:
  "list_all keeps_scan es \<Longrightarrow> scanResult (app (run es w)) = scanResult (app w)"
  by (induction es arbitrary: w) (simp_all add: step_keeps_scan)

text \<open>\<open>toLowerCase\<close> on the two alphabets, on digits and signs, and on Latin-1.\<close>

lemma toLowerCase_PNG: "toLowerCase ''PNG'' = ''png''"
  by code_simp

lemma toLowerCase_alphabet:
  "toLowerCase ''ABCDEFGHIJKLMNOPQRSTUVWXYZ'' = ''abcdefghijklmnopqrstuvwxyz''"
  "toLowerCase ''abcdefghijklmnopqrstuvwxyz'' = ''abcdefghijklmnopqrstuvwxyz''"
  "toLowerCase ''0123456789 .-_@[]{}'' = ''0123456789 .-_@[]{}''"
  by code_simp+

lemma toLowerCase_latin1:
  "toLowerCase [CHR 0xC0, CHR 0xC9, CHR 0xD6, CHR 0xD8, CHR 0xDE]
     = [CHR 0xE0, CHR 0xE9, CHR 0xF6, CHR 0xF8, CHR 0xFE]"
  "toLowerCase [CHR 0xD7, CHR 0xDF, CHR 0xE9, CHR 0xFF, CHR 0xB5]
     = [CHR 0xD7, CHR 0xDF, CHR 0xE9, CHR 0xFF, CHR 0xB5]"
  by code_simp+

lemma toLowerCase_length: "length (toLowerCase s) = length s"
  by (simp add: toLowerCase_def)

lemma toLowerCase_code:
  "i < length s \<Longrightarrow>
     (of_char (toLowerCase s ! i) :: nat) =
       (if (65 \<le> (of_char (s ! i) :: nat) \<and> (of_char (s ! i) :: nat) \<le> 90)
           \<or> (192 \<le> (of_char (s ! i) :: nat) \<and> (of_char (s ! i) :: nat) \<le> 222
               \<and> (of_char (s ! i) :: nat) \<noteq> 215)
        then of_char (s ! i) + 32 else of_char (s ! i))"
  by (auto simp add: toLowerCase_def toLowerCase_char_def charCodeAt_def)


section \<open>Facts about one conversion\<close>

lemma conversion_success:
  assumes "analysisResult (app w) = Some ar" and "selectedFile (app w) = Some file"
    and "generateScripts env (sourceFormat ar) (format tf) = Inr sc"
    and "convertFileContent env file (format tf) = Inr cr"
    and "makeBlob env cr = Inr blob"
  shows "handleConversionSelect env tf w =
           conversion_download env ar file tf blob
             (commit (commit w (conversion_begin (app w)))
                ((app (commit w (conversion_begin (app w))))\<lparr>scripts := Some sc\<rparr>))"
  using assms by (simp add: handleConversionSelect_def Let_def)

lemma conversion_download_history:
  "conversionHistory (app (conversion_download env ar file tf blob w)) =
     newHistoryEntry env ar file tf # conversionHistory (app w)"
  by (simp add: conversion_download_def Let_def commit_fields conversion_finally_def)

lemma conversion_download_downloads:
  "downloads (conversion_download env ar file tf blob w) =
     downloads w @ [(newFileName (file_name file) tf, blob)]"
  by (simp add: conversion_download_def Let_def downloads_commit)


lemma conversion_success_history:
  assumes "analysisResult (app w) = Some ar" and "selectedFile (app w) = Some file"
    and "generateScripts env (sourceFormat ar) (format tf) = Inr sc"
    and "convertFileContent env file (format tf) = Inr cr"
    and "makeBlob env cr = Inr blob"
  shows "conversionHistory (app (handleConversionSelect env tf w)) =
           newHistoryEntry env ar file tf # conversionHistory (app w)"
  by (simp add: conversion_success [OF assms] conversion_download_history commit_fields
        conversion_begin_def)

lemma conversion_success_downloads:
  assumes "analysisResult (app w) = Some ar" and "selectedFile (app w) = Some file"
    and "generateScripts env (sourceFormat ar) (format tf) = Inr sc"
    and "convertFileContent env file (format tf) = Inr cr"
    and "makeBlob env cr = Inr blob"
  shows "downloads (handleConversionSelect env tf w) =
           downloads w @ [(newFileName (file_name file) tf, blob)]"
  by (simp add: conversion_success [OF assms] conversion_download_downloads downloads_commit)



section \<open>Facts about the example tabs\<close>

lemma firstVisit_value:
  "firstVisit =
     \<lparr> app = initialState\<lparr>currentUser := Some trialUser\<rparr>,
       storage = \<lparr> filecraft_user = Some trialUser, filecraft_history = Some [] \<rparr>,
       downloads = [] \<rparr>"
  by (simp add: firstVisit_def trialUser_def handler_defs Let_def)

lemma docxReady_app:
  "analysisResult (app docxReady) = Some docxAnalysis"
  "selectedFile (app docxReady) = Some reportDocx"
  "conversionHistory (app docxReady) = []"
  "downloads docxReady = []"
  by (simp_all add: docxReady_def firstVisit_value handler_defs Let_def workingEnv_def
        reportDocx_def)

lemma pngReady_app:
  "analysisResult (app pngReady) = Some pngAnalysis"
  "selectedFile (app pngReady) = Some photoPng"
  "conversionHistory (app pngReady) = []"
  "downloads pngReady = []"
  by (simp_all add: pngReady_def firstVisit_value handler_defs Let_def workingEnv_def
        photoPng_def)

lemma workingEnv_answers:
  "generateScripts workingEnv src tgt = Inr [(''python'', ''convert()'')]"
  "convertFileContent workingEnv f tgt = Inr pdfResult"
  "makeBlob workingEnv pdfResult = Inr pdfBlob"
  by (simp_all add: workingEnv_def makeBlob_def base64ToBlob_def pdfResult_def pdfBlob_def
        charCodeAt_def)



section \<open>Subscription\<close>

text \<open>
  Claim C3. For every logged-in user, activating with the code \<^verbatim>\<open>PRO-YEARLY-2024\<close>
  returns true and leaves a user whose subscription is Pro and whose \<^verbatim>\<open>trialEndsAt\<close> is
  absent, every other field of the user as before; with any other code the whole tab
  (state and storage) is as before and false is returned. The handler has no branch
  that throws.
\<close>

theorem activateSubscription_designated_code:
  "currentUser (app w) = Some u \<Longrightarrow>
     snd (activateSubscription ''PRO-YEARLY-2024'' w) = True
     \<and> currentUser (app (fst (activateSubscription ''PRO-YEARLY-2024'' w)))
         = Some (u\<lparr>subscription := Pro, trialEndsAt := None\<rparr>)
     \<and> (code \<noteq> ''PRO-YEARLY-2024'' \<longrightarrow> activateSubscription code w = (w, False))"
  by (simp add: activateSubscription_def handleActivateSubscription_def commit_fields
        commit_same)

theorem activateSubscription_designated_code_witness:
  "snd (activateSubscription ''PRO-YEARLY-2024'' firstVisit) = True
   \<and> currentUser (app (fst (activateSubscription ''PRO-YEARLY-2024'' firstVisit)))
       = Some \<lparr> user_name = ''Alex Rider'', subscription = Pro, trialEndsAt = None,
                settings = \<lparr> darkMode = True, notifications = False \<rparr> \<rparr>
   \<and> activateSubscription ''PRO-YEARLY-2025'' firstVisit = (firstVisit, False)"
  using activateSubscription_designated_code
          [of firstVisit trialUser "''PRO-YEARLY-2025''"]
  by (simp add: firstVisit_value trialUser_def)

text \<open>
  Claim C9. With no user logged in, activation returns false and changes nothing, the
  designated code included.
\<close>

theorem activateSubscription_without_user:
  "currentUser (app w) = None \<Longrightarrow> activateSubscription code w = (w, False)"
  by (simp add: activateSubscription_def handleActivateSubscription_def commit_same)

theorem activateSubscription_without_user_witness:
  "activateSubscription ''PRO-YEARLY-2024'' (logout firstVisit) = (logout firstVisit, False)"
  using activateSubscription_without_user [of "logout firstVisit" "''PRO-YEARLY-2024''"]
  by (simp add: logout_def handleLogout_def commit_fields)





section \<open>Reset and logout\<close>

text \<open>
  Claim C8. Reset clears the selected file, the analysis result, the scan result, the
  generated scripts, the error and the loading flag, and leaves the current user and the
  conversion history as they were, in the state and in the storage.
\<close>

theorem reset_frame:
  "selectedFile (app (reset w)) = None \<and> analysisResult (app (reset w)) = None
   \<and> scanResult (app (reset w)) = None \<and> scripts (app (reset w)) = None
   \<and> error (app (reset w)) = None \<and> isLoading (app (reset w)) = False
   \<and> currentUser (app (reset w)) = currentUser (app w)
   \<and> conversionHistory (app (reset w)) = conversionHistory (app w)
   \<and> storage (reset w) = storage w"
  by (simp add: reset_def handleReset_def commit_fields storage_commit)

theorem reset_frame_witness:
  "selectedFile (app (reset docxReady)) = None
   \<and> currentUser (app (reset docxReady)) = Some trialUser
   \<and> storage (reset docxReady)
       = \<lparr> filecraft_user = Some trialUser, filecraft_history = Some [] \<rparr>"
  using reset_frame [of docxReady]
  by (simp add: docxReady_def firstVisit_value handler_defs Let_def workingEnv_def)

text \<open>
  Claim C1. Logout clears only the user held in memory and leaves the stored user and
  the stored history untouched, so that the next login restores the same user and
  history. The comment of line 194 says the same. In the code the effect of lines 59-65
  runs once \<^verbatim>\<open>currentUser\<close> has become \<^verbatim>\<open>null\<close> and removes \<^verbatim>\<open>filecraft_user\<close>; the
  next login finds no stored user and creates a new trial user. The statement evaluates
  this on a tab whose user had activated the Pro subscription: the history survives, the
  user does not.
\<close>

theorem logout_then_login_loses_account:
  "currentUser (app proTab)
     = Some \<lparr> user_name = ''Alex Rider'', subscription = Pro, trialEndsAt = None,
              settings = \<lparr> darkMode = True, notifications = False \<rparr> \<rparr>
   \<and> filecraft_user (storage proTab) = currentUser (app proTab)
   \<and> filecraft_user (storage (logout proTab)) = None
   \<and> filecraft_history (storage (logout proTab)) = filecraft_history (storage proTab)
   \<and> currentUser (app (login 1762400000000 (logout proTab)))
     = Some \<lparr> user_name = ''Alex Rider'', subscription = FreeTrial,
              trialEndsAt = Some 1762400000000,
              settings = \<lparr> darkMode = True, notifications = False \<rparr> \<rparr>
   \<and> conversionHistory (app (login 1762400000000 (logout proTab)))
     = conversionHistory (app proTab)"
  by (simp add: proTab_def docxReady_def firstVisit_value handler_defs Let_def example_defs)


section \<open>File selection\<close>

text \<open>
  Claim C7. When the scan fails, the error message is set, loading is false, and both
  the scan result and the analysis result are absent (they were cleared when the
  selection began). When the scan succeeds and the analysis fails, the error message is
  set, loading is false, the scan result is the one the scan returned and the analysis
  result is absent.
\<close>

theorem fileSelect_failure_state:
  "(\<forall>err. simulateVirusScan env file = Inl err \<longrightarrow>
      error (app (handleFileSelect env (Some file) w)) = Some ''Failed to process file. The AI model may be unavailable or the scan failed. Please try again later.''
      \<and> isLoading (app (handleFileSelect env (Some file) w)) = False
      \<and> scanResult (app (handleFileSelect env (Some file) w)) = None
      \<and> analysisResult (app (handleFileSelect env (Some file) w)) = None)
   \<and> (\<forall>scan err. simulateVirusScan env file = Inr scan
          \<and> analyzeFile env file (status scan) = Inl err \<longrightarrow>
      error (app (handleFileSelect env (Some file) w)) = Some ''Failed to process file. The AI model may be unavailable or the scan failed. Please try again later.''
      \<and> isLoading (app (handleFileSelect env (Some file) w)) = False
      \<and> scanResult (app (handleFileSelect env (Some file) w)) = Some scan
      \<and> analysisResult (app (handleFileSelect env (Some file) w)) = None)"
  by (simp add: handleFileSelect_def Let_def commit_fields fileSelect_begin_def
        fileSelect_scanSettled_def fileSelect_analyzeSettled_def fileSelect_finally_def
        fileSelect_catch_def)

theorem fileSelect_failure_state_witness:
  "error (app (handleFileSelect (workingEnv\<lparr>simulateVirusScan := (\<lambda>f. Inl (Error ''503''))\<rparr>)
       (Some photoPng) docxReady)) = Some ''Failed to process file. The AI model may be unavailable or the scan failed. Please try again later.''
   \<and> isLoading (app (handleFileSelect (workingEnv\<lparr>simulateVirusScan := (\<lambda>f. Inl (Error ''503''))\<rparr>)
       (Some photoPng) docxReady)) = False
   \<and> scanResult (app (handleFileSelect (workingEnv\<lparr>simulateVirusScan := (\<lambda>f. Inl (Error ''503''))\<rparr>)
       (Some photoPng) docxReady)) = None
   \<and> analysisResult (app (handleFileSelect (workingEnv\<lparr>simulateVirusScan := (\<lambda>f. Inl (Error ''503''))\<rparr>)
       (Some photoPng) docxReady)) = None
   \<and> isLoading (app (handleFileSelect (workingEnv\<lparr>analyzeFile := (\<lambda>f st. Inl NonError)\<rparr>)
       (Some photoPng) docxReady)) = False
   \<and> scanResult (app (handleFileSelect (workingEnv\<lparr>analyzeFile := (\<lambda>f st. Inl NonError)\<rparr>)
       (Some photoPng) docxReady)) = Some cleanScan
   \<and> analysisResult (app (handleFileSelect (workingEnv\<lparr>analyzeFile := (\<lambda>f st. Inl NonError)\<rparr>)
       (Some photoPng) docxReady)) = None"
  using fileSelect_failure_state
          [of "workingEnv\<lparr>simulateVirusScan := (\<lambda>f. Inl (Error ''503''))\<rparr>" photoPng docxReady]
        fileSelect_failure_state
          [of "workingEnv\<lparr>analyzeFile := (\<lambda>f st. Inl NonError)\<rparr>" photoPng docxReady]
  by (simp add: workingEnv_def)

text \<open>
  Claim C2. Of two selections made in rapid succession, the second before the analysis
  of the first has resolved, only the second's analysis result is stored in the end, and
  a completion that belongs to the superseded selection changes nothing. The handler
  keeps no generation counter and makes no staleness test: each part of it writes to
  the state when its promise settles. In the first trace below the second file is
  selected while the first is still being scanned, and the analysis of the first
  resolves last; in the second trace the user resets before selecting the second file.
  Both end with the second file selected and the first file's analysis stored.
\<close>

theorem stale_analysis_overwrites:
  "selectedFile (app (run [FileSelected reportDocx, FileSelected photoPng,
       ScanSettled reportDocx (Inr cleanScan), ScanSettled photoPng (Inr cleanScan),
       AnalyzeSettled photoPng (Inr pngAnalysis),
       AnalyzeSettled reportDocx (Inr docxAnalysis)] firstVisit)) = Some photoPng
   \<and> analysisResult (app (run [FileSelected reportDocx, FileSelected photoPng,
       ScanSettled reportDocx (Inr cleanScan), ScanSettled photoPng (Inr cleanScan),
       AnalyzeSettled photoPng (Inr pngAnalysis),
       AnalyzeSettled reportDocx (Inr docxAnalysis)] firstVisit)) = Some docxAnalysis
   \<and> analysisResult (app (run [FileSelected reportDocx,
       ScanSettled reportDocx (Inr cleanScan), ResetClicked, FileSelected photoPng,
       ScanSettled photoPng (Inr cleanScan), AnalyzeSettled photoPng (Inr pngAnalysis),
       AnalyzeSettled reportDocx (Inr docxAnalysis)] firstVisit)) = Some docxAnalysis
   \<and> docxAnalysis \<noteq> pngAnalysis"
  by (simp add: firstVisit_value handler_defs Let_def docxAnalysis_def pngAnalysis_def)

text \<open>
  Claim C2, amended. A resolved analysis is stored whichever selection it belongs to,
  and stays stored while only settled scans and rejected analyses follow it; a resolved
  scan is stored whichever selection it belongs to, and stays stored while only settled
  analyses and rejected scans follow it. So of two overlapping selections, with no
  reset or further selection after the second, the analysis result stored in the end is
  that of the last analysis that resolved after the second selection began: the second
  selection's when its analysis resolves after the first's, the first's when the first's
  resolves after the second's.
\<close>

theorem last_resolved_completion_is_stored:
  "(list_all keeps_analysis es2 \<longrightarrow>
      analysisResult (app (run (es1 @ AnalyzeSettled file (Inr result) # es2) w))
        = Some result)
   \<and> (list_all keeps_scan es2 \<longrightarrow>
      scanResult (app (run (es1 @ ScanSettled file (Inr scan) # es2) w)) = Some scan)"
  by (simp add: run_append run_keeps_analysis run_keeps_scan commit_fields
        fileSelect_analyzeSettled_def fileSelect_scanSettled_def fileSelect_finally_def)

theorem last_resolved_completion_is_stored_witness:
  "analysisResult (app (run ([FileSelected reportDocx, FileSelected photoPng,
       ScanSettled reportDocx (Inr cleanScan), AnalyzeSettled reportDocx (Inr docxAnalysis),
       ScanSettled photoPng (Inr cleanScan)]
       @ AnalyzeSettled photoPng (Inr pngAnalysis)
       # [ScanSettled reportDocx (Inl (Error ''late''))]) firstVisit)) = Some pngAnalysis
   \<and> analysisResult (app (run ([FileSelected reportDocx, FileSelected photoPng,
       ScanSettled reportDocx (Inr cleanScan)]
       @ AnalyzeSettled reportDocx (Inr docxAnalysis)
       # [ScanSettled photoPng (Inr cleanScan),
          AnalyzeSettled photoPng (Inl (Error ''503''))]) firstVisit)) = Some docxAnalysis
   \<and> scanResult (app (run ([FileSelected reportDocx, FileSelected photoPng,
       ScanSettled photoPng (Inr cleanScan)]
       @ ScanSettled reportDocx (Inr threatScan)
       # [AnalyzeSettled photoPng (Inr pngAnalysis),
          AnalyzeSettled reportDocx (Inr docxAnalysis)]) firstVisit)) = Some threatScan"
  using last_resolved_completion_is_stored
          [of "[ScanSettled reportDocx (Inl (Error ''late''))]"
              "[FileSelected reportDocx, FileSelected photoPng,
                ScanSettled reportDocx (Inr cleanScan),
                AnalyzeSettled reportDocx (Inr docxAnalysis),
                ScanSettled photoPng (Inr cleanScan)]"
              photoPng pngAnalysis firstVisit]
        last_resolved_completion_is_stored
          [of "[ScanSettled photoPng (Inr cleanScan),
                AnalyzeSettled photoPng (Inl (Error ''503''))]"
              "[FileSelected reportDocx, FileSelected photoPng,
                ScanSettled reportDocx (Inr cleanScan)]"
              reportDocx docxAnalysis firstVisit]
        last_resolved_completion_is_stored
          [of "[AnalyzeSettled photoPng (Inr pngAnalysis),
                AnalyzeSettled reportDocx (Inr docxAnalysis)]"
              "[FileSelected reportDocx, FileSelected photoPng,
                ScanSettled photoPng (Inr cleanScan)]"
              reportDocx _ firstVisit threatScan]
  by simp


section \<open>Conversion\<close>




text \<open>
  Claim C6. The file a successful conversion hands to the user is named by the text
  before the last dot of the selected file's name, or by the whole name when it has no
  dot, followed by the extension of the target format: \<^verbatim>\<open>report.docx\<close> converted to
  \<^verbatim>\<open>{format: "PDF", extension: ".pdf"}\<close> is saved as \<^verbatim>\<open>report.pdf\<close>.
\<close>

theorem conversion_download_name:
  assumes "analysisResult (app w) = Some ar" and "selectedFile (app w) = Some file"
    and "generateScripts env (sourceFormat ar) (format tf) = Inr sc"
    and "convertFileContent env file (format tf) = Inr cr"
    and "makeBlob env cr = Inr blob"
  shows "(\<forall>p rest. file_name file = p @ ''.'' @ rest \<and> CHR ''.'' \<notin> set rest \<longrightarrow>
            downloads (handleConversionSelect env tf w)
              = downloads w @ [(p @ extension tf, blob)])
         \<and> (CHR ''.'' \<notin> set (file_name file) \<longrightarrow>
            downloads (handleConversionSelect env tf w)
              = downloads w @ [(file_name file @ extension tf, blob)])"
  by (simp add: conversion_success_downloads [OF assms] newFileName_def baseName_dot
        baseName_no_dot)

theorem conversion_download_name_witness:
  "downloads (handleConversionSelect workingEnv pdfSuggestion docxReady)
     = [(''report.pdf'', \<lparr> blob_part = ByteArray [37, 80, 68, 70, 45],
                            blob_type = ''application/pdf'' \<rparr>)]"
  using conversion_download_name
          [OF docxReady_app(1) docxReady_app(2) workingEnv_answers(1) workingEnv_answers(2)
              workingEnv_answers(3), THEN conjunct1, rule_format, of "''report''" "''docx''"]
  by (simp add: docxReady_app reportDocx_def pdfSuggestion_def pdfBlob_def)

text \<open>
  Claim C10. After a successful conversion the newest history entry has, for an image
  analysis, a \<^verbatim>\<open>fromFormat\<close> made of a dot and the lower-cased format of the analysis
  (\<^verbatim>\<open>PNG\<close> gives \<^verbatim>\<open>.png\<close>), and for a file analysis the extension of the analysis as it
  is. Lower-cased means: as long as the format, and at every position the code unit of
  the format, moved up by 32 when it is a capital letter (65-90, or 192-222 without 215)
  and unchanged otherwise.
\<close>

theorem history_fromFormat:
  assumes "analysisResult (app w) = Some ar" and "selectedFile (app w) = Some file"
    and "generateScripts env (sourceFormat ar) (format tf) = Inr sc"
    and "convertFileContent env file (format tf) = Inr cr"
    and "makeBlob env cr = Inr blob"
  shows "(\<forall>r. ar = Image r \<longrightarrow>
            (\<exists>lowered.
               fromFormat (hd (conversionHistory (app (handleConversionSelect env tf w))))
                 = CHR ''.'' # lowered
               \<and> lowered = toLowerCase (image_format r)
               \<and> length lowered = length (image_format r)
               \<and> (\<forall>i < length (image_format r).
                    (of_char (lowered ! i) :: nat) =
                      (if (65 \<le> (of_char (image_format r ! i) :: nat)
                             \<and> (of_char (image_format r ! i) :: nat) \<le> 90)
                          \<or> (192 \<le> (of_char (image_format r ! i) :: nat)
                             \<and> (of_char (image_format r ! i) :: nat) \<le> 222
                             \<and> (of_char (image_format r ! i) :: nat) \<noteq> 215)
                       then of_char (image_format r ! i) + 32
                       else of_char (image_format r ! i)))))
         \<and> (\<forall>r. ar = File r \<longrightarrow>
            fromFormat (hd (conversionHistory (app (handleConversionSelect env tf w))))
              = file_extension r)"
proof (intro conjI allI impI)
  fix r
  assume "ar = Image r"
  then have "fromFormat (hd (conversionHistory (app (handleConversionSelect env tf w))))
               = CHR ''.'' # toLowerCase (image_format r)"
    by (simp add: conversion_success_history [OF assms] newHistoryEntry_def)
  then show "\<exists>lowered.
               fromFormat (hd (conversionHistory (app (handleConversionSelect env tf w))))
                 = CHR ''.'' # lowered
               \<and> lowered = toLowerCase (image_format r)
               \<and> length lowered = length (image_format r)
               \<and> (\<forall>i < length (image_format r).
                    (of_char (lowered ! i) :: nat) =
                      (if (65 \<le> (of_char (image_format r ! i) :: nat)
                             \<and> (of_char (image_format r ! i) :: nat) \<le> 90)
                          \<or> (192 \<le> (of_char (image_format r ! i) :: nat)
                             \<and> (of_char (image_format r ! i) :: nat) \<le> 222
                             \<and> (of_char (image_format r ! i) :: nat) \<noteq> 215)
                       then of_char (image_format r ! i) + 32
                       else of_char (image_format r ! i)))"
    using toLowerCase_length [of "image_format r"] toLowerCase_code [of _ "image_format r"]
    by blast
next
  fix r
  assume "ar = File r"
  then show "fromFormat (hd (conversionHistory (app (handleConversionSelect env tf w))))
               = file_extension r"
    by (simp add: conversion_success_history [OF assms] newHistoryEntry_def)
qed

theorem history_fromFormat_witness:
  "fromFormat (hd (conversionHistory
       (app (handleConversionSelect workingEnv pdfSuggestion pngReady)))) = ''.png''
   \<and> fromFormat (hd (conversionHistory
       (app (handleConversionSelect workingEnv pdfSuggestion docxReady)))) = ''.docx''"
  using history_fromFormat
          [OF pngReady_app(1) pngReady_app(2) workingEnv_answers(1) workingEnv_answers(2)
              workingEnv_answers(3), where tf = pdfSuggestion]
        history_fromFormat
          [OF docxReady_app(1) docxReady_app(2) workingEnv_answers(1) workingEnv_answers(2)
              workingEnv_answers(3), where tf = pdfSuggestion]
  by (simp add: pngAnalysis_def docxAnalysis_def toLowerCase_PNG)

end
